theory Spec2Isabelle
  imports Complex_Main
begin

section \<open>The bond table of \<open>ContForce\<close>\<close>

text \<open>
  \<open>ContForce.h\<close> declares the force as a vector of \<open>BondInfo\<close>; \<open>ContForce.cpp\<close>
  implements the operations on it. A C++ \<open>double\<close> is read as a real number and an
  \<open>int\<close> as an integer: the conversions of \<open>bonds.size()\<close> to \<open>int\<close> are taken as
  exact, which they are for every table of fewer than \<open>2^31\<close> bonds.
\<close>

text \<open>\<open>class ContForce::BondInfo\<close>: the fields \<open>idxs\<close>, \<open>npart\<close>, \<open>length\<close>, \<open>k\<close>.\<close>

record BondInfo =
  idxs :: "int list"
  npart :: int
  length_b :: real
  k_b :: real

text \<open>\<open>class ContForce\<close>: its only data member is \<open>std::vector<BondInfo> bonds\<close>.\<close>

record ContForce =
  bonds :: "BondInfo list"

text \<open>
  The kinds of failure the specification names. In the C++ each is an
  \<open>OpenMMException\<close> thrown at the call.
\<close>

datatype error = IndexError | InvalidArgument | StructuralChangeError | DegenerateGeometryError

text \<open>\<open>ContForce::ContForce()\<close>: the empty table.\<close>

definition ContForce_new :: ContForce where
  "ContForce_new = \<lparr>bonds = []\<rparr>"

text \<open>\<open>int getNumBonds() const { return bonds.size(); }\<close>\<close>

definition getNumBonds :: "ContForce \<Rightarrow> int" where
  "getNumBonds force = int (length (bonds force))"

text \<open>\<open>bool usesPeriodicBoundaryConditions() const { return false; }\<close>\<close>

definition usesPeriodicBoundaryConditions :: "ContForce \<Rightarrow> bool" where
  "usesPeriodicBoundaryConditions force = False"

text \<open>
  Modelled from the spec: the macro \<open>ASSERT_VALID_INDEX(index, vector)\<close> of
  \<open>openmm/internal/AssertionUtilities.h\<close>, which is not among the sources. The
  specification has the accessors fail with an out-of-range error when the index is not
  below the size of the table; an index below zero names no bond either and is refused
  the same way. \<open>True\<close> means that the macro throws.
\<close>

definition ASSERT_VALID_INDEX :: "int \<Rightarrow> 'a list \<Rightarrow> bool" where
  "ASSERT_VALID_INDEX index vector \<longleftrightarrow> index < 0 \<or> index \<ge> int (length vector)"

text \<open>
  \<open>int ContForce::addBond(std::vector<int> idxs, int npart, double length, double k)\<close>:
  \<open>push_back\<close> of a new \<open>BondInfo\<close>, then \<open>bonds.size()-1\<close>. The result is the
  returned index and the force after the call.
\<close>

definition addBond :: "int list \<Rightarrow> int \<Rightarrow> real \<Rightarrow> real \<Rightarrow> ContForce \<Rightarrow> int \<times> ContForce" where
  "addBond idxs' npart' length' k' force =
     (let force' = force\<lparr>bonds := bonds force @
                      [\<lparr>idxs = idxs', npart = npart', length_b = length', k_b = k'\<rparr>]\<rparr>
      in (int (length (bonds force')) - 1, force'))"

text \<open>
  \<open>void ContForce::getBondParameters(int index, std::vector<int>& idxs, int& npart,
  double& length, double& k) const\<close>: the four output parameters are the result. The
  method is \<open>const\<close>, so there is no force to return.
\<close>

definition getBondParameters :: "int \<Rightarrow> ContForce \<Rightarrow> error + (int list \<times> int \<times> real \<times> real)" where
  "getBondParameters index force =
     (if ASSERT_VALID_INDEX index (bonds force) then Inl IndexError
      else let b = bonds force ! nat index
           in Inr (idxs b, npart b, length_b b, k_b b))"

text \<open>
  \<open>void ContForce::setBondParameters(int index, std::vector<int> idxs, int npart,
  double length, double k)\<close>: the four assignments to \<open>bonds[index]\<close>, after the index
  check. The result pairs the outcome of the call with the force after it, so that the
  table a failed call leaves behind is part of the model.
\<close>

definition setBondParameters ::
  "int \<Rightarrow> int list \<Rightarrow> int \<Rightarrow> real \<Rightarrow> real \<Rightarrow> ContForce \<Rightarrow> (error + unit) \<times> ContForce" where
  "setBondParameters index idxs' npart' length' k' force =
     (if ASSERT_VALID_INDEX index (bonds force) then (Inl IndexError, force)
      else
        let bs1 = (bonds force)[nat index := (bonds force ! nat index)\<lparr>idxs := idxs'\<rparr>];
            bs2 = bs1[nat index := (bs1 ! nat index)\<lparr>npart := npart'\<rparr>];
            bs3 = bs2[nat index := (bs2 ! nat index)\<lparr>length_b := length'\<rparr>];
            bs4 = bs3[nat index := (bs3 ! nat index)\<lparr>k_b := k'\<rparr>]
        in (Inr (), force\<lparr>bonds := bs4\<rparr>))"

text \<open>
  A sequence of \<open>addBond\<close> calls, one per argument tuple, on the same force: the indices
  returned, in call order, and the force after the last call.
\<close>

fun addBonds :: "(int list \<times> int \<times> real \<times> real) list \<Rightarrow> ContForce \<Rightarrow> int list \<times> ContForce" where
  "addBonds [] force = ([], force)"
| "addBonds ((idxs', npart', length', k') # calls) force =
     (let (index, force') = addBond idxs' npart' length' k' force;
          (indices, force'') = addBonds calls force'
      in (index # indices, force''))"

section \<open>The compiled kernel\<close>

text \<open>
  The reference kernel and \<open>ContForceImpl\<close> are not among the sources; the tests in
  \<open>TestReferenceContForce.cpp\<close> reach them through \<open>Context\<close>. The definitions of this
  section follow the specification's description of them: a topology snapshot and a
  parameter snapshot taken at compile time, the evaluation of energy and forces over
  consecutive pairs of each chain, and the synchronization of the parameters.
\<close>

text \<open>\<open>OpenMM::Vec3\<close>: three coordinates, with the vector operations the kernel uses.\<close>

datatype Vec3 = Vec3 real real real

instantiation Vec3 :: ab_group_add
begin

definition zero_Vec3 :: Vec3 where
  "zero_Vec3 = Vec3 0 0 0"

fun plus_Vec3 :: "Vec3 \<Rightarrow> Vec3 \<Rightarrow> Vec3" where
  "plus_Vec3 (Vec3 a b c) (Vec3 x y z) = Vec3 (a + x) (b + y) (c + z)"

fun minus_Vec3 :: "Vec3 \<Rightarrow> Vec3 \<Rightarrow> Vec3" where
  "minus_Vec3 (Vec3 a b c) (Vec3 x y z) = Vec3 (a - x) (b - y) (c - z)"

fun uminus_Vec3 :: "Vec3 \<Rightarrow> Vec3" where
  "uminus_Vec3 (Vec3 a b c) = Vec3 (- a) (- b) (- c)"

instance
proof
  fix u v w :: Vec3
  show "u + v + w = u + (v + w)"
    by (cases u; cases v; cases w) simp
  show "u + v = v + u"
    by (cases u; cases v) simp
  show "0 + u = u"
    by (cases u) (simp add: zero_Vec3_def)
  show "- u + u = 0"
    by (cases u) (simp add: zero_Vec3_def)
  show "u - v = u + - v"
    by (cases u; cases v) simp
qed

end

text \<open>\<open>Vec3::dot\<close>, the product of a vector with a scalar, and the length of a vector.\<close>

fun vdot :: "Vec3 \<Rightarrow> Vec3 \<Rightarrow> real" where
  "vdot (Vec3 a b c) (Vec3 x y z) = a * x + b * y + c * z"

fun vscale :: "real \<Rightarrow> Vec3 \<Rightarrow> Vec3" where
  "vscale s (Vec3 x y z) = Vec3 (s * x) (s * y) (s * z)"

definition vnorm :: "Vec3 \<Rightarrow> real" where
  "vnorm d = sqrt (vdot d d)"

text \<open>
  Modelled from the spec: the state of a compiled \<open>RestraintKernel\<close>, which is not
  among the sources. The topology snapshot holds \<open>particles\<close> and \<open>count\<close> of each
  bond, the parameter snapshot \<open>length\<close> and \<open>stiffness\<close> of each bond.
\<close>

record RestraintKernel =
  topology :: "(int list \<times> int) list"
  parameters :: "(real \<times> real) list"

text \<open>
  Modelled from the spec: compiling a force for a system of \<open>numSystemParticles\<close>
  particles (\<open>createImpl\<close> and the kernel's \<open>initialize\<close>, not among the sources).
  The whole table is copied into the two snapshots; a particle index outside
  \<open>[0, numSystemParticles)\<close> fails the compile.
\<close>

definition compile :: "nat \<Rightarrow> ContForce \<Rightarrow> error + RestraintKernel" where
  "compile numSystemParticles force =
     (if list_all (\<lambda>b. list_all (\<lambda>p. 0 \<le> p \<and> p < int numSystemParticles) (idxs b))
           (bonds force)
      then Inr \<lparr>topology = map (\<lambda>b. (idxs b, npart b)) (bonds force),
                parameters = map (\<lambda>b. (length_b b, k_b b)) (bonds force)\<rparr>
      else Inl InvalidArgument)"

text \<open>
  Modelled from the spec: the kernel's \<open>copyParametersToContext\<close>, not among the
  sources. The number of bonds of the force must be the number of bonds of the topology
  snapshot; then \<open>length\<close> and \<open>stiffness\<close> of every bond replace the parameter
  snapshot, and the topology snapshot stays.
\<close>

definition copyParametersToContext :: "RestraintKernel \<Rightarrow> ContForce \<Rightarrow> error + RestraintKernel" where
  "copyParametersToContext ker force =
     (if getNumBonds force = int (length (topology ker))
      then Inr (ker\<lparr>parameters := map (\<lambda>b. (length_b b, k_b b)) (bonds force)\<rparr>)
      else Inl StructuralChangeError)"

text \<open>
  \<open>void ContForce::updateParametersInContext(Context& context)\<close>: the call is handed
  to the \<open>ContForceImpl\<close> of the context, which hands the force to its kernel. The
  context is represented by its compiled kernel.
\<close>

definition updateParametersInContext :: "ContForce \<Rightarrow> RestraintKernel \<Rightarrow> error + RestraintKernel" where
  "updateParametersInContext force context = copyParametersToContext context force"

text \<open>
  The guard of the model on a particle index read from a chain: it is not negative, and
  the positions and the force buffer both have an entry for it.
\<close>

definition in_range :: "int \<Rightarrow> Vec3 list \<Rightarrow> Vec3 list \<Rightarrow> bool" where
  "in_range particle pos forces \<longleftrightarrow>
     0 \<le> particle \<and> nat particle < length pos \<and> nat particle < length forces"

text \<open>
  Modelled from the spec: the loop of the kernel over the consecutive pairs
  \<open>(p[i], p[i+1])\<close> of one chain, \<open>i\<close> from the given start to \<open>count - 2\<close>, not
  among the sources. With \<open>d = position[p[i+1]] - position[p[i]]\<close>, \<open>r = |d|\<close> and
  \<open>dr = r - L\<close>, a pair adds \<open>k * dr^2\<close> to the energy, and the force
  \<open>(2 * k * dr / r) d\<close>, which is minus the gradient of that energy with respect to
  \<open>position[p[i+1]]\<close>, is subtracted from the force of \<open>p[i+1]\<close> and added to the
  force of \<open>p[i]\<close>. A pair at distance zero fails the evaluation. The reads of the
  chain, of the positions and of the force buffer are guarded: the specification's
  invariants keep them in range, and where they are not, the model fails with
  \<open>InvalidArgument\<close> instead of reading outside the vector.
\<close>

function chain_loop ::
  "Vec3 list \<Rightarrow> int list \<Rightarrow> int \<Rightarrow> real \<Rightarrow> real \<Rightarrow> nat \<Rightarrow> real \<times> Vec3 list
     \<Rightarrow> error + real \<times> Vec3 list" where
  "chain_loop pos p count L k i (energy, forces) =
     (if int i \<le> count - 2 then
        (if i + 1 < length p \<and> in_range (p ! i) pos forces \<and> in_range (p ! (i + 1)) pos forces
         then
           (let p1 = nat (p ! i);
                p2 = nat (p ! (i + 1));
                d = pos ! p2 - pos ! p1;
                r = vnorm d
            in if r = 0 then Inl DegenerateGeometryError
               else
                 (let dr = r - L;
                      f = vscale (2 * k * dr / r) d;
                      forces1 = forces[p2 := forces ! p2 - f];
                      forces2 = forces1[p1 := forces1 ! p1 + f]
                  in chain_loop pos p count L k (i + 1) (energy + k * dr\<^sup>2, forces2)))
         else Inl InvalidArgument)
      else Inr (energy, forces))"
  by pat_completeness auto
termination
  by (relation "measure (\<lambda>(pos, p, count, L, k, i, acc). nat (count - 1 - int i))") auto

text \<open>
  Modelled from the spec: the loop of the kernel over the bonds, not among the sources.
  Each bond comes with its entry of the topology snapshot and of the parameter snapshot;
  the first failing chain fails the whole evaluation.
\<close>

fun bonds_loop ::
  "Vec3 list \<Rightarrow> ((int list \<times> int) \<times> (real \<times> real)) list \<Rightarrow> real \<times> Vec3 list
     \<Rightarrow> error + real \<times> Vec3 list" where
  "bonds_loop pos [] acc = Inr acc"
| "bonds_loop pos (((p, count), (L, k)) # rest) acc =
     (case chain_loop pos p count L k 0 acc of
        Inl e \<Rightarrow> Inl e
      | Inr acc' \<Rightarrow> bonds_loop pos rest acc')"

text \<open>
  Modelled from the spec: the kernel's \<open>execute\<close>, not among the sources, asked for
  both energy and forces. It starts from energy zero, accumulates into the force buffer
  it is given, and returns the total energy and the buffer.
\<close>

definition execute :: "RestraintKernel \<Rightarrow> Vec3 list \<Rightarrow> Vec3 list \<Rightarrow> error + real \<times> Vec3 list" where
  "execute ker pos forces =
     bonds_loop pos (zip (topology ker) (parameters ker)) (0, forces)"

subsection \<open>The sums the evaluation is specified by\<close>

text \<open>
  Modelled from the spec: the energy of the pair \<open>(p[i], p[i+1])\<close>, of a chain, and of
  all bonds, written as the sums of the specification:
  \<open>k * (|position[p[i+1]] - position[p[i]]| - L)^2\<close> over \<open>i\<close> in \<open>[0, count-2]\<close> and
  over the bonds.
\<close>

definition pair_energy :: "Vec3 list \<Rightarrow> int list \<Rightarrow> real \<Rightarrow> real \<Rightarrow> nat \<Rightarrow> real" where
  "pair_energy pos p L k i =
     k * (vnorm (pos ! nat (p ! (i + 1)) - pos ! nat (p ! i)) - L)\<^sup>2"

definition chain_energy :: "Vec3 list \<Rightarrow> int list \<Rightarrow> int \<Rightarrow> real \<Rightarrow> real \<Rightarrow> real" where
  "chain_energy pos p count L k = (\<Sum>i\<leftarrow>[0 ..< nat (count - 1)]. pair_energy pos p L k i)"

definition total_energy :: "RestraintKernel \<Rightarrow> Vec3 list \<Rightarrow> real" where
  "total_energy ker pos =
     (\<Sum>((p, count), (L, k))\<leftarrow>zip (topology ker) (parameters ker).
        chain_energy pos p count L k)"

text \<open>
  Modelled from the spec: what the pair \<open>(p[i], p[i+1])\<close> adds to the force of particle
  \<open>q\<close>, namely its force vector if \<open>q\<close> is \<open>p[i]\<close>, minus its force vector if \<open>q\<close> is
  \<open>p[i+1]\<close>; and the sum of these over the pairs of a chain and over all bonds.
\<close>

definition pair_force :: "Vec3 list \<Rightarrow> int list \<Rightarrow> real \<Rightarrow> real \<Rightarrow> nat \<Rightarrow> Vec3" where
  "pair_force pos p L k i =
     (let d = pos ! nat (p ! (i + 1)) - pos ! nat (p ! i);
          r = vnorm d
      in vscale (2 * k * (r - L) / r) d)"

definition pair_push :: "Vec3 list \<Rightarrow> int list \<Rightarrow> real \<Rightarrow> real \<Rightarrow> nat \<Rightarrow> nat \<Rightarrow> Vec3" where
  "pair_push pos p L k q i =
     (if nat (p ! i) = q then pair_force pos p L k i else 0)
       - (if nat (p ! (i + 1)) = q then pair_force pos p L k i else 0)"

definition chain_push :: "Vec3 list \<Rightarrow> int list \<Rightarrow> int \<Rightarrow> real \<Rightarrow> real \<Rightarrow> nat \<Rightarrow> Vec3" where
  "chain_push pos p count L k q = (\<Sum>i\<leftarrow>[0 ..< nat (count - 1)]. pair_push pos p L k q i)"

definition net_force :: "RestraintKernel \<Rightarrow> Vec3 list \<Rightarrow> nat \<Rightarrow> Vec3" where
  "net_force ker pos q =
     (\<Sum>((p, count), (L, k))\<leftarrow>zip (topology ker) (parameters ker).
        chain_push pos p count L k q)"

text \<open>
  Modelled from the spec: the invariants of a bond, for a system of \<open>n\<close> particles:
  \<open>count\<close> is the length of \<open>particles\<close>, and every particle index lies in \<open>[0, n)\<close>;
  and the condition that no consecutive pair of the chain is at distance zero.
\<close>

definition bond_invariant :: "nat \<Rightarrow> int list \<times> int \<Rightarrow> bool" where
  "bond_invariant n b \<longleftrightarrow>
     snd b = int (length (fst b)) \<and> list_all (\<lambda>x. 0 \<le> x \<and> x < int n) (fst b)"

definition separated :: "Vec3 list \<Rightarrow> int list \<times> int \<Rightarrow> bool" where
  "separated pos b \<longleftrightarrow>
     list_all (\<lambda>i. vnorm (pos ! nat (fst b ! (i + 1)) - pos ! nat (fst b ! i)) \<noteq> 0)
       [0 ..< nat (snd b - 1)]"

text \<open>The unfolding of the loop is used only where the guard is known.\<close>

declare chain_loop.simps [simp del]

text \<open>
  Modelled from the spec: the invariant \<open>count == particles.size()\<close>, on a bond of the
  table.
\<close>

definition count_matches :: "BondInfo \<Rightarrow> bool" where
  "count_matches b \<longleftrightarrow> npart b = int (length (idxs b))"

section \<open>The systems of \<open>TestReferenceContForce.cpp\<close>\<close>

text \<open>
  \<open>testForce\<close>: ten particles, nine of them one unit apart along the first axis and
  the last one displaced along the third, and one bond over all ten with length 1 and
  \<open>k = 17\<close>.
\<close>

definition testForce_force :: ContForce where
  "testForce_force = snd (addBond [0, 1, 2, 3, 4, 5, 6, 7, 8, 9] 10 1 17 ContForce_new)"

definition testForce_positions :: "Vec3 list" where
  "testForce_positions =
     [Vec3 0 (7/10) (1/2), Vec3 1 (7/10) (1/2), Vec3 2 (7/10) (1/2), Vec3 3 (7/10) (1/2),
      Vec3 4 (7/10) (1/2), Vec3 5 (7/10) (1/2), Vec3 6 (7/10) (1/2), Vec3 7 (7/10) (1/2),
      Vec3 8 (7/10) (1/2), Vec3 9 (7/10) (21/10)]"

text \<open>
  \<open>testChangingParameters\<close>: two particles at \<open>(1,0,0)\<close> and \<open>(2,0,0)\<close> and one bond
  between them with length 0.5 and \<open>k = 1.5\<close>.
\<close>

definition testChangingParameters_force :: ContForce where
  "testChangingParameters_force = snd (addBond [0, 1] 2 (1/2) (3/2) ContForce_new)"

definition testChangingParameters_positions :: "Vec3 list" where
  "testChangingParameters_positions = [Vec3 1 0 0, Vec3 2 0 0]"

text \<open>
  \<open>testMultipleBonds\<close>: a particle at the origin, particles at \<open>(-1,0,0)\<close> and
  \<open>(1,0,0)\<close>, and two bonds from the origin, one to each, with length 0.5 and
  \<open>k = 17\<close>.
\<close>

definition testMultipleBonds_force :: ContForce where
  "testMultipleBonds_force =
     snd (addBond [0, 2] 2 (1/2) 17 (snd (addBond [0, 1] 2 (1/2) 17 ContForce_new)))"

definition testMultipleBonds_positions :: "Vec3 list" where
  "testMultipleBonds_positions = [Vec3 0 0 0, Vec3 (- 1) 0 0, Vec3 1 0 0]"

section \<open>The bond table: helper facts\<close>

lemma BondInfo_overwrite:
  "(b::BondInfo)\<lparr>idxs := P, npart := n, length_b := L, k_b := k\<rparr>
     = \<lparr>idxs = P, npart = n, length_b = L, k_b = k\<rparr>"
  by (cases b) simp

lemma setBondParameters_valid:
  assumes "0 \<le> index" and "index < getNumBonds force"
  shows "setBondParameters index P n L k force =
           (Inr (), force\<lparr>bonds := (bonds force)
              [nat index := \<lparr>idxs = P, npart = n, length_b = L, k_b = k\<rparr>]\<rparr>)"
proof -
  from assms have inside: "nat index < length (bonds force)"
    by (simp add: getNumBonds_def)
  from assms have pass: "\<not> ASSERT_VALID_INDEX index (bonds force)"
    by (simp add: ASSERT_VALID_INDEX_def getNumBonds_def)
  show ?thesis
    using inside pass by (simp add: setBondParameters_def Let_def BondInfo_overwrite)
qed

lemma setBondParameters_invalid:
  assumes "index < 0 \<or> getNumBonds force \<le> index"
  shows "setBondParameters index P n L k force = (Inl IndexError, force)"
  using assms by (auto simp: setBondParameters_def ASSERT_VALID_INDEX_def getNumBonds_def)

lemma upt_first: "[m ..< Suc (m + n)] = m # [Suc m ..< Suc (m + n)]"
  by (simp add: upt_conv_Cons del: upt_Suc)

lemma addBonds_from:
  "addBonds calls force =
     (map int [length (bonds force) ..< length (bonds force) + length calls],
      force\<lparr>bonds := bonds force @
        map (\<lambda>(P, n, L, k). \<lparr>idxs = P, npart = n, length_b = L, k_b = k\<rparr>) calls\<rparr>)"
proof (induction calls arbitrary: force)
  case Nil
  show ?case by simp
next
  case (Cons c calls)
  obtain P n L k where c: "c = (P, n, L, k)"
    by (cases c) auto
  show ?case
    unfolding c by (simp add: addBond_def Let_def Cons.IH upt_first del: upt_Suc)
qed

section \<open>The bond table: the properties\<close>

text \<open>
  C4. The calls of any sequence of \<open>addBond\<close> calls on a new \<open>ContForce\<close> return the
  indices 0, 1, 2, ... in call order, and after the n calls \<open>getNumBonds\<close> is n.
\<close>

theorem addBond_indices:
  "fst (addBonds calls ContForce_new) = map int [0 ..< length calls]
   \<and> getNumBonds (snd (addBonds calls ContForce_new)) = int (length calls)"
  by (simp add: addBonds_from ContForce_new_def getNumBonds_def)

text \<open>
  C5. For an index of the table, \<open>setBondParameters\<close> with any particle list, count,
  length and stiffness succeeds, and \<open>getBondParameters\<close> at that index then gives back
  exactly these four values.
\<close>

theorem set_get_roundtrip:
  assumes "0 \<le> i" and "i < getNumBonds force"
  shows "fst (setBondParameters i P n L k force) = Inr ()
         \<and> getBondParameters i (snd (setBondParameters i P n L k force)) = Inr (P, n, L, k)"
proof -
  from assms have inside: "nat i < length (bonds force)"
    by (simp add: getNumBonds_def)
  show ?thesis
    using assms inside
    by (simp add: setBondParameters_valid getBondParameters_def ASSERT_VALID_INDEX_def
        getNumBonds_def)
qed

theorem set_get_roundtrip_witness:
  "(0::int) \<le> 1
   \<and> 1 < getNumBonds \<lparr>bonds = [\<lparr>idxs = [0, 1], npart = 2, length_b = 1/2, k_b = 3/2\<rparr>,
                               \<lparr>idxs = [0, 2], npart = 2, length_b = 1/2, k_b = 17\<rparr>]\<rparr>
   \<and> getBondParameters 1 (snd (setBondParameters 1 [2, 1, 0] 3 (9/10) (11/5)
        \<lparr>bonds = [\<lparr>idxs = [0, 1], npart = 2, length_b = 1/2, k_b = 3/2\<rparr>,
                  \<lparr>idxs = [0, 2], npart = 2, length_b = 1/2, k_b = 17\<rparr>]\<rparr>))
       = Inr ([2, 1, 0], 3, 9/10, 11/5)"
  using set_get_roundtrip [of 1
      "\<lparr>bonds = [\<lparr>idxs = [0, 1], npart = 2, length_b = 1/2, k_b = 3/2\<rparr>,
                 \<lparr>idxs = [0, 2], npart = 2, length_b = 1/2, k_b = 17\<rparr>]\<rparr>"
      "[2, 1, 0]" 3 "9/10" "11/5"]
  by (simp add: getNumBonds_def)

text \<open>
  C6. At an index that is not below \<open>getNumBonds\<close>, \<open>getBondParameters\<close> and
  \<open>setBondParameters\<close> both fail with the out-of-range error, and the force after the
  failed \<open>setBondParameters\<close> is the force before it (\<open>getBondParameters\<close> is
  \<open>const\<close>).
\<close>

theorem index_out_of_range:
  assumes "getNumBonds force \<le> i"
  shows "getBondParameters i force = Inl IndexError
         \<and> setBondParameters i P n L k force = (Inl IndexError, force)"
  using assms
  by (simp add: getBondParameters_def setBondParameters_def ASSERT_VALID_INDEX_def
      getNumBonds_def)

theorem index_out_of_range_witness:
  "getNumBonds \<lparr>bonds = [\<lparr>idxs = [0, 1], npart = 2, length_b = 1/2, k_b = 3/2\<rparr>]\<rparr> \<le> 1
   \<and> getBondParameters 1 \<lparr>bonds = [\<lparr>idxs = [0, 1], npart = 2, length_b = 1/2, k_b = 3/2\<rparr>]\<rparr>
       = Inl IndexError
   \<and> setBondParameters 1 [0, 1] 2 (9/10) (11/5)
        \<lparr>bonds = [\<lparr>idxs = [0, 1], npart = 2, length_b = 1/2, k_b = 3/2\<rparr>]\<rparr>
       = (Inl IndexError, \<lparr>bonds = [\<lparr>idxs = [0, 1], npart = 2, length_b = 1/2, k_b = 3/2\<rparr>]\<rparr>)"
  using index_out_of_range [of
      "\<lparr>bonds = [\<lparr>idxs = [0, 1], npart = 2, length_b = 1/2, k_b = 3/2\<rparr>]\<rparr>" 1
      "[0, 1]" 2 "9/10" "11/5"]
  by (simp add: getNumBonds_def)

text \<open>
  C7, as the code has it. Neither \<open>addBond\<close> nor \<open>setBondParameters\<close> compares the
  count with the length of the particle list. \<open>addBond\<close> always succeeds: it appends
  the bond with the count as given and returns the old number of bonds.
  \<open>setBondParameters\<close> succeeds at every index of the table and fails only for an
  index outside it, with the out-of-range error and never with \<open>InvalidArgument\<close>.
\<close>

theorem count_not_checked:
  "addBond P n L k force
     = (getNumBonds force,
        force\<lparr>bonds := bonds force @ [\<lparr>idxs = P, npart = n, length_b = L, k_b = k\<rparr>]\<rparr>)
   \<and> fst (setBondParameters i P n L k force)
       = (if 0 \<le> i \<and> i < getNumBonds force then Inr () else Inl IndexError)
   \<and> fst (setBondParameters i P n L k force) \<noteq> Inl InvalidArgument"
  by (auto simp: addBond_def Let_def getNumBonds_def setBondParameters_def
      ASSERT_VALID_INDEX_def)

text \<open>
  C7 as it is stated fails: \<open>addBond\<close> with two particles and count 5 on a new force
  returns index 0 and stores count 5, and \<open>setBondParameters\<close> with two particles and
  count 7 on the one bond of \<open>testChangingParameters\<close> succeeds and stores count 7.
\<close>

theorem count_mismatch_counterexample:
  "(5::int) \<noteq> int (length [0::int, 1])
   \<and> addBond [0, 1] 5 (1/2) (3/2) ContForce_new
       = (0, \<lparr>bonds = [\<lparr>idxs = [0, 1], npart = 5, length_b = 1/2, k_b = 3/2\<rparr>]\<rparr>)
   \<and> (7::int) \<noteq> int (length [0::int, 1])
   \<and> setBondParameters 0 [0, 1] 7 (9/10) (11/5) testChangingParameters_force
       = (Inr (), \<lparr>bonds = [\<lparr>idxs = [0, 1], npart = 7, length_b = 9/10, k_b = 11/5\<rparr>]\<rparr>)"
  by (simp add: addBond_def ContForce_new_def Let_def setBondParameters_def
      ASSERT_VALID_INDEX_def testChangingParameters_force_def)

text \<open>
  C9. \<open>usesPeriodicBoundaryConditions\<close> is false for every \<open>ContForce\<close>, whatever its
  table holds.
\<close>

theorem never_periodic: "\<not> usesPeriodicBoundaryConditions force"
  by (simp add: usesPeriodicBoundaryConditions_def)

text \<open>
  C10. \<open>setBondParameters\<close> at index i leaves \<open>getNumBonds\<close> as it was, and leaves the
  bond stored at every other position j as it was: the same \<open>BondInfo\<close> in the table,
  and the same answer of \<open>getBondParameters\<close> at every other index.
\<close>

theorem setBondParameters_frame:
  "getNumBonds (snd (setBondParameters i P n L k force)) = getNumBonds force
   \<and> (\<forall>j. j \<noteq> nat i \<longrightarrow>
          bonds (snd (setBondParameters i P n L k force)) ! j = bonds force ! j)
   \<and> (\<forall>j. j \<noteq> i \<longrightarrow>
          getBondParameters j (snd (setBondParameters i P n L k force))
            = getBondParameters j force)"
proof (cases "0 \<le> i \<and> i < getNumBonds force")
  case True
  then have valid: "0 \<le> i" "i < getNumBonds force"
    by simp_all
  let ?force' = "force\<lparr>bonds := (bonds force)
              [nat i := \<lparr>idxs = P, npart = n, length_b = L, k_b = k\<rparr>]\<rparr>"
  have result: "snd (setBondParameters i P n L k force) = ?force'"
    by (simp add: setBondParameters_valid [OF valid])
  have count: "getNumBonds ?force' = getNumBonds force"
    by (simp add: getNumBonds_def)
  have table: "bonds ?force' ! j = bonds force ! j" if "j \<noteq> nat i" for j
    using that by simp
  have answer: "getBondParameters j ?force' = getBondParameters j force" if "j \<noteq> i" for j
  proof (cases "ASSERT_VALID_INDEX j (bonds force)")
    case True
    then show ?thesis
      by (simp add: getBondParameters_def ASSERT_VALID_INDEX_def)
  next
    case False
    with valid(1) that have "nat j \<noteq> nat i"
      by (auto simp: ASSERT_VALID_INDEX_def)
    with False show ?thesis
      by (simp add: getBondParameters_def ASSERT_VALID_INDEX_def Let_def)
  qed
  show ?thesis
    unfolding result using count table answer by blast
next
  case False
  then have "i < 0 \<or> getNumBonds force \<le> i"
    by auto
  then show ?thesis
    by (simp add: setBondParameters_invalid)
qed

theorem setBondParameters_frame_witness:
  "getNumBonds (snd (setBondParameters 1 [2, 1, 0] 3 (9/10) (11/5)
      \<lparr>bonds = [\<lparr>idxs = [0, 1], npart = 2, length_b = 1/2, k_b = 3/2\<rparr>,
                \<lparr>idxs = [0, 2], npart = 2, length_b = 1/2, k_b = 17\<rparr>]\<rparr>)) = 2
   \<and> (0::int) \<noteq> 1
   \<and> getBondParameters 0 (snd (setBondParameters 1 [2, 1, 0] 3 (9/10) (11/5)
      \<lparr>bonds = [\<lparr>idxs = [0, 1], npart = 2, length_b = 1/2, k_b = 3/2\<rparr>,
                \<lparr>idxs = [0, 2], npart = 2, length_b = 1/2, k_b = 17\<rparr>]\<rparr>))
       = Inr ([0, 1], 2, 1/2, 3/2)"
  using setBondParameters_frame [of 1 "[2, 1, 0]" 3 "9/10" "11/5"
      "\<lparr>bonds = [\<lparr>idxs = [0, 1], npart = 2, length_b = 1/2, k_b = 3/2\<rparr>,
                 \<lparr>idxs = [0, 2], npart = 2, length_b = 1/2, k_b = 17\<rparr>]\<rparr>"]
  by (simp add: getNumBonds_def getBondParameters_def ASSERT_VALID_INDEX_def)

section \<open>The kernel: helper facts\<close>

lemma upt_step: "i < n \<Longrightarrow> [i ..< n] = i # [Suc i ..< n]"
  by (rule upt_conv_Cons)

lemma pair_update:
  assumes "p1 < length fs" and "p2 < length fs" and "q < length fs"
  shows "(fs[p2 := fs ! p2 - f])[p1 := (fs[p2 := fs ! p2 - f]) ! p1 + f] ! q
           = fs ! q + ((if p1 = q then f else 0) - (if p2 = q then f else (0::Vec3)))"
  using assms by (auto simp: nth_list_update)

lemma chain_loop_result:
  "chain_loop pos p count L k i (e, fs) = Inr (e', fs') \<Longrightarrow>
     e' = e + (\<Sum>j\<leftarrow>[i ..< nat (count - 1)]. pair_energy pos p L k j)
     \<and> length fs' = length fs
     \<and> (\<forall>q. q < length fs \<longrightarrow>
           fs' ! q = fs ! q + (\<Sum>j\<leftarrow>[i ..< nat (count - 1)]. pair_push pos p L k q j))"
proof (induction pos p count L k i "(e, fs)" arbitrary: e fs rule: chain_loop.induct)
  case (1 pos p count L k i energy forces)
  show ?case
  proof (cases "int i \<le> count - 2")
    case False
    then have "[i ..< nat (count - 1)] = []"
      by simp
    with False "1.prems" show ?thesis
      by (simp add: chain_loop.simps)
  next
    case True
    then have step: "[i ..< nat (count - 1)] = i # [Suc i ..< nat (count - 1)]"
      by (intro upt_step) linarith
    let ?p1 = "nat (p ! i)" and ?p2 = "nat (p ! (i + 1))"
    let ?d = "pos ! ?p2 - pos ! ?p1"
    let ?f = "vscale (2 * k * (vnorm ?d - L) / vnorm ?d) ?d"
    let ?fs1 = "forces[?p2 := forces ! ?p2 - ?f]"
    let ?fs2 = "?fs1[?p1 := ?fs1 ! ?p1 + ?f]"
    from True "1.prems" have guard:
      "i + 1 < length p" "in_range (p ! i) pos forces" "in_range (p ! (i + 1)) pos forces"
      by (auto simp: chain_loop.simps split: if_splits)
    from True guard "1.prems" have apart: "vnorm ?d \<noteq> 0"
      by (auto simp: chain_loop.simps Let_def split: if_splits)
    from True guard apart "1.prems" have rest:
      "chain_loop pos p count L k (i + 1) (energy + k * (vnorm ?d - L)\<^sup>2, ?fs2) = Inr (e', fs')"
      by (simp add: chain_loop.simps Let_def)
    have IH: "e' = energy + k * (vnorm ?d - L)\<^sup>2
                + (\<Sum>j\<leftarrow>[i + 1 ..< nat (count - 1)]. pair_energy pos p L k j)
      \<and> length fs' = length ?fs2
      \<and> (\<forall>q. q < length ?fs2 \<longrightarrow>
           fs' ! q = ?fs2 ! q + (\<Sum>j\<leftarrow>[i + 1 ..< nat (count - 1)]. pair_push pos p L k q j))"
      using "1.hyps" [OF True conjI [OF guard(1) conjI [OF guard(2) guard(3)]]
          refl refl refl refl apart refl refl refl refl rest]
      by simp
    have inside: "?p1 < length forces" "?p2 < length forces"
      using guard by (simp_all add: in_range_def)
    have now: "?fs2 ! q = forces ! q + pair_push pos p L k q i" if "q < length forces" for q
      using pair_update [OF inside that, of ?f]
      by (simp add: pair_push_def pair_force_def Let_def)
    have head: "k * (vnorm ?d - L)\<^sup>2 = pair_energy pos p L k i"
      by (simp add: pair_energy_def)
    show ?thesis
      using IH now unfolding head step by (simp add: add.assoc)
  qed
qed


lemma chain_loop_total:
  assumes "bond_invariant n (p, count)" and "separated pos (p, count)"
    and "length pos = n" and "length fs = n"
  shows "\<exists>e' fs'. chain_loop pos p count L k i (e, fs) = Inr (e', fs')"
  using assms
proof (induction pos p count L k i "(e, fs)" arbitrary: e fs rule: chain_loop.induct)
  case (1 pos p count L k i energy forces)
  note inv = "1.prems"(1) and sep = "1.prems"(2) and len = "1.prems"(3) "1.prems"(4)
  show ?case
  proof (cases "int i \<le> count - 2")
    case False
    then show ?thesis
      by (simp add: chain_loop.simps)
  next
    case True
    let ?p1 = "nat (p ! i)" and ?p2 = "nat (p ! (i + 1))"
    let ?d = "pos ! ?p2 - pos ! ?p1"
    let ?f = "vscale (2 * k * (vnorm ?d - L) / vnorm ?d) ?d"
    let ?fs1 = "forces[?p2 := forces ! ?p2 - ?f]"
    let ?fs2 = "?fs1[?p1 := ?fs1 ! ?p1 + ?f]"
    from inv have count: "count = int (length p)"
      and particles: "\<forall>x\<in>set p. 0 \<le> x \<and> x < int n"
      by (auto simp: bond_invariant_def list_all_iff)
    from True count have chain: "i + 1 < length p" "i < length p"
      by simp_all
    from particles chain have "0 \<le> p ! i \<and> p ! i < int n" "0 \<le> p ! (i + 1) \<and> p ! (i + 1) < int n"
      using nth_mem by blast+
    with len have ranges:
      "in_range (p ! i) pos forces" "in_range (p ! (i + 1)) pos forces"
      by (auto simp: in_range_def)
    from True have "i \<in> set [0 ..< nat (count - 1)]"
      by simp
    with sep have apart: "vnorm ?d \<noteq> 0"
      by (simp add: separated_def list_all_iff)
    have unfold: "chain_loop pos p count L k i (energy, forces)
        = chain_loop pos p count L k (i + 1) (energy + k * (vnorm ?d - L)\<^sup>2, ?fs2)"
      using True chain ranges apart by (simp add: chain_loop.simps [of _ _ _ _ _ i] Let_def)
    have "length ?fs2 = n"
      using len by simp
    from "1.hyps" [OF True conjI [OF chain(1) conjI [OF ranges(1) ranges(2)]]
        refl refl refl refl apart refl refl refl refl inv sep len(1) this]
    show ?thesis
      unfolding unfold .
  qed
qed

lemma bonds_loop_result:
  "bonds_loop pos bs (e, fs) = Inr (e', fs') \<Longrightarrow>
     e' = e + (\<Sum>((p, count), (L, k))\<leftarrow>bs. chain_energy pos p count L k)
     \<and> length fs' = length fs
     \<and> (\<forall>q. q < length fs \<longrightarrow>
           fs' ! q = fs ! q + (\<Sum>((p, count), (L, k))\<leftarrow>bs. chain_push pos p count L k q))"
proof (induction bs arbitrary: e fs)
  case Nil
  then show ?case by simp
next
  case (Cons b bs)
  obtain p count L k where b: "b = ((p, count), (L, k))"
    by (cases b) auto
  from Cons.prems obtain e1 fs1
    where first: "chain_loop pos p count L k 0 (e, fs) = Inr (e1, fs1)"
      and rest: "bonds_loop pos bs (e1, fs1) = Inr (e', fs')"
    by (auto simp: b split: sum.splits)
  from chain_loop_result [OF first]
  have one: "e1 = e + chain_energy pos p count L k" "length fs1 = length fs"
    "\<And>q. q < length fs \<Longrightarrow> fs1 ! q = fs ! q + chain_push pos p count L k q"
    by (simp_all add: chain_energy_def chain_push_def)
  from Cons.IH [OF rest] one show ?case
    by (simp add: b add.assoc)
qed

lemma bonds_loop_total:
  assumes "list_all (\<lambda>(b, par). bond_invariant n b \<and> separated pos b) bs"
    and "length pos = n" and "length fs = n"
  shows "\<exists>e' fs'. bonds_loop pos bs (e, fs) = Inr (e', fs')"
  using assms(1,3)
proof (induction bs arbitrary: e fs)
  case Nil
  show ?case by simp
next
  case (Cons b bs)
  obtain p count L k where b: "b = ((p, count), (L, k))"
    by (cases b) auto
  from Cons.prems(1) have good: "bond_invariant n (p, count)" "separated pos (p, count)"
    and others: "list_all (\<lambda>(b, par). bond_invariant n b \<and> separated pos b) bs"
    by (simp_all add: b)
  from chain_loop_total [OF good assms(2) Cons.prems(2)] obtain e1 fs1
    where first: "chain_loop pos p count L k 0 (e, fs) = Inr (e1, fs1)"
    by blast
  from chain_loop_result [OF first] Cons.prems(2) have "length fs1 = n"
    by simp
  from Cons.IH [OF others this] show ?case
    by (simp add: b first)
qed

lemma list_all_zip_fst:
  "list_all P xs \<Longrightarrow> list_all (\<lambda>(x, y). P x) (zip xs ys)"
  by (auto simp: list_all_iff dest: set_zip_leftD)


lemma compile_topology:
  assumes "compile n force = Inr ker"
  shows "topology ker = map (\<lambda>b. (idxs b, npart b)) (bonds force)"
    and "parameters ker = map (\<lambda>b. (length_b b, k_b b)) (bonds force)"
    and "list_all (\<lambda>b. list_all (\<lambda>x. 0 \<le> x \<and> x < int n) (idxs b)) (bonds force)"
  using assms by (auto simp: compile_def split: if_splits)

lemma compile_bond_invariant:
  assumes "compile n force = Inr ker" and "list_all count_matches (bonds force)"
  shows "list_all (bond_invariant n) (topology ker)"
  using compile_topology(3) [OF assms(1)] assms(2)
  unfolding compile_topology(1) [OF assms(1)]
  by (auto simp: list_all_iff bond_invariant_def count_matches_def)

lemmas run_defs = execute_def compile_def addBond_def ContForce_new_def Let_def
  chain_loop.simps in_range_def vnorm_def zero_Vec3_def

text \<open>
  In \<open>testForce\<close> the sum is the energy of the last pair alone, as the test expects:
  the other eight pairs are at the equilibrium length.
\<close>

lemma testForce_energy:
  "compile 10 testForce_force
     = Inr \<lparr>topology = [([0, 1, 2, 3, 4, 5, 6, 7, 8, 9], 10)], parameters = [(1, 17)]\<rparr>
   \<and> total_energy \<lparr>topology = [([0, 1, 2, 3, 4, 5, 6, 7, 8, 9], 10)], parameters = [(1, 17)]\<rparr>
        testForce_positions
       = 17 * (vnorm (testForce_positions ! 9 - testForce_positions ! 8) - 1)\<^sup>2"
  by (simp add: compile_def testForce_force_def addBond_def ContForce_new_def Let_def
      total_energy_def chain_energy_def pair_energy_def testForce_positions_def vnorm_def
      upt_conv_Cons)

section \<open>The kernel: the properties\<close>

text \<open>
  C1. Whenever the evaluation of a kernel at some positions returns an energy, that
  energy is the sum, over the bonds and over the consecutive pairs \<open>(p[i], p[i+1])\<close>,
  \<open>i\<close> in \<open>[0, count-2]\<close>, of each chain, of \<open>k * (|position[p[i+1]] - position[p[i]]| - L)^2\<close>.
  The evaluation does return it for a kernel compiled from a force whose bonds have
  \<open>count == particles.size()\<close>, at positions for the system's particles where no
  consecutive pair is at distance zero. A chain with \<open>count == 1\<close> has energy zero and
  leaves energy and forces as they are.
\<close>

theorem execute_energy:
  "(\<forall>e forces'. execute ker pos forces = Inr (e, forces') \<longrightarrow> e = total_energy ker pos)
   \<and> (compile (length pos) force = Inr ker \<and> list_all count_matches (bonds force)
        \<and> list_all (separated pos) (topology ker) \<and> length forces = length pos
      \<longrightarrow> (\<exists>forces'. execute ker pos forces = Inr (total_energy ker pos, forces')))
   \<and> chain_energy pos p 1 L k = 0
   \<and> chain_loop pos p 1 L k 0 (e0, forces) = Inr (e0, forces)"
proof (intro conjI allI impI)
  fix e forces'
  assume "execute ker pos forces = Inr (e, forces')"
  then show "e = total_energy ker pos"
    by (auto simp: execute_def total_energy_def dest: bonds_loop_result)
next
  assume given: "compile (length pos) force = Inr ker \<and> list_all count_matches (bonds force)
        \<and> list_all (separated pos) (topology ker) \<and> length forces = length pos"
  then have "list_all (bond_invariant (length pos)) (topology ker)"
    by (auto intro: compile_bond_invariant)
  with given have "list_all (\<lambda>b. bond_invariant (length pos) b \<and> separated pos b) (topology ker)"
    by (auto simp: list_all_iff)
  then have "list_all (\<lambda>(b, par). bond_invariant (length pos) b \<and> separated pos b)
      (zip (topology ker) (parameters ker))"
    by (rule list_all_zip_fst)
  from bonds_loop_total [OF this refl, of forces 0] given obtain e forces'
    where run: "execute ker pos forces = Inr (e, forces')"
    by (auto simp: execute_def)
  then have "e = total_energy ker pos"
    by (auto simp: execute_def total_energy_def dest: bonds_loop_result)
  with run show "\<exists>forces'. execute ker pos forces = Inr (total_energy ker pos, forces')"
    by blast
next
  show "chain_energy pos p 1 L k = 0"
    by (simp add: chain_energy_def)
next
  show "chain_loop pos p 1 L k 0 (e0, forces) = Inr (e0, forces)"
    by (simp add: chain_loop.simps)
qed

theorem execute_energy_witness:
  "(let force = snd (addBond [0, 1, 2] 3 (1/2) 2 ContForce_new);
        ker = \<lparr>topology = [([0, 1, 2], 3)], parameters = [(1/2, 2)]\<rparr>;
        pos = [Vec3 0 0 0, Vec3 2 0 0, Vec3 2 1 0]
    in compile (length pos) force = Inr ker
       \<and> list_all count_matches (bonds force)
       \<and> list_all (separated pos) (topology ker)
       \<and> execute ker pos [0, 0, 0] = Inr (5, [Vec3 6 0 0, Vec3 (- 6) 2 0, Vec3 0 (- 2) 0])
       \<and> total_energy ker pos = 5)"
proof -
  let ?force = "snd (addBond [0, 1, 2] 3 (1/2) 2 ContForce_new)"
  let ?ker = "\<lparr>topology = [([0, 1, 2], 3)], parameters = [(1/2, 2)]\<rparr>"
  let ?pos = "[Vec3 0 0 0, Vec3 2 0 0, Vec3 2 1 0]"
  have c: "compile (length ?pos) ?force = Inr ?ker"
    by (simp add: run_defs)
  have m: "list_all count_matches (bonds ?force)"
    by (simp add: run_defs count_matches_def)
  have s: "list_all (separated ?pos) (topology ?ker)"
    by (simp add: separated_def vnorm_def upt_conv_Cons)
  have r: "execute ?ker ?pos [0, 0, 0] = Inr (5, [Vec3 6 0 0, Vec3 (- 6) 2 0, Vec3 0 (- 2) 0])"
    by (simp add: run_defs power2_eq_square)
  from execute_energy [of ?ker ?pos "[0, 0, 0]" ?force] r
  have "total_energy ?ker ?pos = 5"
    by simp
  with c m s r show ?thesis
    unfolding Let_def by blast
qed

text \<open>
  C2. The kernel compiled from the force of \<open>testChangingParameters\<close> has energy
  \<open>1.5 * (1.0 - 0.5)^2\<close> at the test's positions. After \<open>setBondParameters\<close> to
  length 0.9 and \<open>k = 2.2\<close> and \<open>updateParametersInContext\<close> on that same kernel,
  which keeps its topology snapshot, the energy is \<open>2.2 * (1.0 - 0.9)^2\<close>.
\<close>

theorem parameter_update_energy:
  "(let ker0 = \<lparr>topology = [([0, 1], 2)], parameters = [(1/2, 3/2)]\<rparr>;
        ker1 = \<lparr>topology = [([0, 1], 2)], parameters = [(9/10, 11/5)]\<rparr>;
        force1 = snd (setBondParameters 0 [0, 1] 2 (9/10) (11/5) testChangingParameters_force)
    in compile 2 testChangingParameters_force = Inr ker0
       \<and> map_sum id fst (execute ker0 testChangingParameters_positions [0, 0])
            = Inr (3/2 * (1 - 1/2)\<^sup>2)
       \<and> fst (setBondParameters 0 [0, 1] 2 (9/10) (11/5) testChangingParameters_force) = Inr ()
       \<and> updateParametersInContext force1 ker0 = Inr ker1
       \<and> map_sum id fst (execute ker1 testChangingParameters_positions [0, 0])
            = Inr (11/5 * (1 - 9/10)\<^sup>2))"
  by (simp add: run_defs testChangingParameters_force_def testChangingParameters_positions_def
      setBondParameters_def ASSERT_VALID_INDEX_def updateParametersInContext_def
      copyParametersToContext_def getNumBonds_def power2_eq_square)

text \<open>
  C3. After an evaluation, the force of every particle of the buffer is its force
  before plus the sum of what each pair of each bond adds to it: the pair's force vector
  for the first particle of the pair, minus it for the second. In \<open>testMultipleBonds\<close>
  the two bonds add opposite vectors to the particle at the origin, whose force is zero
  on all three axes.
\<close>

theorem forces_accumulate:
  "(\<forall>e forces' q. execute ker pos forces = Inr (e, forces') \<and> q < length forces
       \<longrightarrow> forces' ! q = forces ! q + net_force ker pos q)
   \<and> (let ker3 = \<lparr>topology = [([0, 1], 2), ([0, 2], 2)], parameters = [(1/2, 17), (1/2, 17)]\<rparr>
      in compile 3 testMultipleBonds_force = Inr ker3
         \<and> execute ker3 testMultipleBonds_positions [0, 0, 0]
             = Inr (17/2, [Vec3 0 0 0, Vec3 17 0 0, Vec3 (- 17) 0 0]))"
proof (intro conjI allI impI)
  fix e forces' q
  assume "execute ker pos forces = Inr (e, forces') \<and> q < length forces"
  then show "forces' ! q = forces ! q + net_force ker pos q"
    by (auto simp: execute_def net_force_def dest: bonds_loop_result)
next
  show "let ker3 = \<lparr>topology = [([0, 1], 2), ([0, 2], 2)], parameters = [(1/2, 17), (1/2, 17)]\<rparr>
      in compile 3 testMultipleBonds_force = Inr ker3
         \<and> execute ker3 testMultipleBonds_positions [0, 0, 0]
             = Inr (17/2, [Vec3 0 0 0, Vec3 17 0 0, Vec3 (- 17) 0 0])"
    by (simp add: run_defs testMultipleBonds_force_def testMultipleBonds_positions_def
        power2_eq_square)
qed

theorem forces_accumulate_witness:
  "(let ker3 = \<lparr>topology = [([0, 1], 2), ([0, 2], 2)], parameters = [(1/2, 17), (1/2, 17)]\<rparr>
    in execute ker3 testMultipleBonds_positions [0, 0, 0]
         = Inr (17/2, [Vec3 0 0 0, Vec3 17 0 0, Vec3 (- 17) 0 0])
       \<and> (0::nat) < length [0::Vec3, 0, 0]
       \<and> net_force ker3 testMultipleBonds_positions 0 = Vec3 0 0 0)"
proof -
  let ?ker3 = "\<lparr>topology = [([0, 1], 2), ([0, 2], 2)], parameters = [(1/2, 17), (1/2, 17)]\<rparr>"
  have run: "execute ?ker3 testMultipleBonds_positions [0, 0, 0]
         = Inr (17/2, [Vec3 0 0 0, Vec3 17 0 0, Vec3 (- 17) 0 0])"
    by (simp add: run_defs testMultipleBonds_positions_def power2_eq_square)
  have "0 < length [0::Vec3, 0, 0]"
    by simp
  with run forces_accumulate [of ?ker3 testMultipleBonds_positions "[0, 0, 0]",
      THEN conjunct1, rule_format, of "17/2" "[Vec3 0 0 0, Vec3 17 0 0, Vec3 (- 17) 0 0]" 0]
  have "[Vec3 0 0 0, Vec3 17 0 0, Vec3 (- 17) 0 0] ! 0
          = [0, 0, 0] ! 0 + net_force ?ker3 testMultipleBonds_positions 0"
    by blast
  then have "net_force ?ker3 testMultipleBonds_positions 0 = Vec3 0 0 0"
    by (simp add: zero_Vec3_def)
  with run show ?thesis
    unfolding Let_def by simp
qed

text \<open>
  C8. When the number of bonds of the force is not the number of bonds of the topology
  snapshot of the compiled kernel, \<open>updateParametersInContext\<close> fails with the
  structural-change error; so it does after a bond was added to a compiled force.
\<close>

theorem update_structural_change:
  assumes "getNumBonds force \<noteq> int (length (topology ker))"
  shows "updateParametersInContext force ker = Inl StructuralChangeError"
  using assms by (simp add: updateParametersInContext_def copyParametersToContext_def)

theorem update_structural_change_witness:
  "(let ker0 = \<lparr>topology = [([0, 1], 2)], parameters = [(1/2, 3/2)]\<rparr>;
        grown = snd (addBond [1, 0] 2 (1/2) 17 testChangingParameters_force)
    in compile 2 testChangingParameters_force = Inr ker0
       \<and> getNumBonds grown \<noteq> int (length (topology ker0))
       \<and> updateParametersInContext grown ker0 = Inl StructuralChangeError)"
proof -
  let ?ker0 = "\<lparr>topology = [([0, 1], 2)], parameters = [(1/2, 3/2)]\<rparr>"
  let ?grown = "snd (addBond [1, 0] 2 (1/2) 17 testChangingParameters_force)"
  have c: "compile 2 testChangingParameters_force = Inr ?ker0"
    by (simp add: run_defs testChangingParameters_force_def)
  have g: "getNumBonds ?grown \<noteq> int (length (topology ?ker0))"
    by (simp add: getNumBonds_def addBond_def Let_def testChangingParameters_force_def
        ContForce_new_def)
  from c g update_structural_change [OF g] show ?thesis
    unfolding Let_def by blast
qed

end
